theory Spec2Isabelle
  imports Main "HOL-Library.AList"
begin

section \<open>Values, errors and Python helpers\<close>

text \<open>
  Python values that reach the resource layer: JSON-like data, the two reference
  tokens (\<open>bson.DBRef\<close>, umongo's \<open>PyMongoReference\<close>) and class instances with
  their attributes. A \<open>dict\<close> is an association list in insertion order with
  distinct keys.
\<close>

datatype pyval =
    PNone
  | PBool bool
  | PInt int
  | PStr string
  | PList "pyval list"
  | PDict "(string \<times> pyval) list"
  | PDBRef string pyval
  | PReference "string option" pyval
  | PObj string "(string \<times> pyval) list"

text \<open>
  The exceptions of \<open>exceptions.py\<close> that the modelled code raises, and the
  built-in ones it lets escape. \<open>ValidationError\<close> carries its payload dict.
\<close>

datatype error =
    ValidationError pyval
  | UnknownFieldError
  | TypeError
  | KeyError string
  | ValueError
  | AttributeError
  | AssertionError

text \<open>Truthiness, as \<open>bool(v)\<close>.\<close>

fun truthy :: "pyval \<Rightarrow> bool" where
  "truthy PNone = False"
| "truthy (PBool b) = b"
| "truthy (PInt n) = (n \<noteq> 0)"
| "truthy (PStr s) = (s \<noteq> [])"
| "truthy (PList xs) = (xs \<noteq> [])"
| "truthy (PDict kvs) = (kvs \<noteq> [])"
| "truthy (PDBRef c i) = True"
| "truthy (PReference c pk) = True"
| "truthy (PObj c attrs) = True"

text \<open>\<open>sep.join(parts)\<close>.\<close>

fun join :: "string \<Rightarrow> string list \<Rightarrow> string" where
  "join sep [] = []"
| "join sep [p] = p"
| "join sep (p # q # ps) = p @ sep @ join sep (q # ps)"

text \<open>
  \<open>s.split(',')\<close>: every comma separates, so the result has one more element than
  \<open>s\<close> has commas. The accumulator holds the current piece reversed.
\<close>

fun split_comma_acc :: "string \<Rightarrow> string \<Rightarrow> string list" where
  "split_comma_acc acc [] = [rev acc]"
| "split_comma_acc acc (c # cs) =
     (if c = CHR '','' then rev acc # split_comma_acc [] cs
      else split_comma_acc (c # acc) cs)"

definition split_comma :: "string \<Rightarrow> string list" where
  "split_comma s = split_comma_acc [] s"

text \<open>
  \<open>key.split('__')\<close>: the separator is matched left to right without overlap, so
  \<open>'a___b'\<close> gives \<open>['a', '_b']\<close>.
\<close>

fun split_dunder_acc :: "string \<Rightarrow> string \<Rightarrow> string list" where
  "split_dunder_acc acc [] = [rev acc]"
| "split_dunder_acc acc [c] = [rev (c # acc)]"
| "split_dunder_acc acc (c # d # cs) =
     (if c = CHR ''_'' \<and> d = CHR ''_'' then rev acc # split_dunder_acc [] cs
      else split_dunder_acc (c # acc) (d # cs))"

definition split_dunder :: "string \<Rightarrow> string list" where
  "split_dunder s = split_dunder_acc [] s"

text \<open>\<open>s.lstrip(chars)\<close> removes leading characters that occur in \<open>chars\<close>.\<close>

definition lstrip :: "string \<Rightarrow> string \<Rightarrow> string" where
  "lstrip chars s = dropWhile (\<lambda>c. c \<in> set chars) s"

text \<open>\<open>d.get(k, default)\<close> on a dict of strings.\<close>

definition get_default :: "(string \<times> 'a) list \<Rightarrow> string \<Rightarrow> 'a \<Rightarrow> 'a" where
  "get_default d k dflt = (case map_of d k of Some v \<Rightarrow> v | None \<Rightarrow> dflt)"

section \<open>Operators (operators.py)\<close>

text \<open>
  The operator classes. \<open>Operator\<close> is the base class; an entry of a resource's
  \<open>filters\<close> is a class (whose \<open>allow_negation\<close> is the class attribute
  \<open>False\<close>) or an instance built with \<open>allow_negation=...\<close>, so a declared
  operator is a class together with that flag.
\<close>

datatype op_class = Operator | Ne | Lt | Lte | Gt | Gte | Exact | In | Boolean | Startswith

record operator =
  op_cls :: op_class
  allow_negation :: bool

fun op :: "op_class \<Rightarrow> string" where
  "op Operator = ''exact''"
| "op Ne = ''ne''"
| "op Lt = ''lt''"
| "op Lte = ''lte''"
| "op Gt = ''gt''"
| "op Gte = ''gte''"
| "op Exact = ''exact''"
| "op In = ''in''"
| "op Boolean = ''exact''"
| "op Startswith = ''startswith''"

text \<open>
  The value handed to an operator by \<open>apply_filters\<close> is a string or \<open>None\<close>.
\<close>

fun val_of :: "string option \<Rightarrow> pyval" where
  "val_of None = PNone"
| "val_of (Some s) = PStr s"

text \<open>\<open>'{}'.format(value)\<close> for a string or \<open>None\<close>.\<close>

fun format_val :: "string option \<Rightarrow> string" where
  "format_val None = ''None''"
| "format_val (Some s) = s"

text \<open>
  \<open>prepare_queryset_kwargs\<close> of each class. \<open>In\<close> evaluates \<open>',' in value\<close>,
  which raises \<open>TypeError\<close> on \<open>None\<close>; its operator names are \<open>negate and 'nin'
  or self.op\<close> and \<open>negate and 'ne' or ''\<close>, used as dict keys as they are.
\<close>

definition base_kwargs :: "op_class \<Rightarrow> string \<Rightarrow> string option \<Rightarrow> bool \<Rightarrow> pyval" where
  "base_kwargs c field v negate =
     (if negate then PDict [(field, PDict [(''$not'', PDict [(''$'' @ op c, val_of v)])])]
      else PDict [(field, PDict [(''$'' @ op c, val_of v)])])"

fun prepare_queryset_kwargs ::
  "op_class \<Rightarrow> string \<Rightarrow> string option \<Rightarrow> bool \<Rightarrow> error + pyval" where
  "prepare_queryset_kwargs Exact field v negate =
     (if negate then Inr (PDict [(field, PDict [(''$ne'', val_of v)])])
      else Inr (PDict [(field, val_of v)]))"
| "prepare_queryset_kwargs In field v negate =
     (case v of
        None \<Rightarrow> Inl TypeError
      | Some s \<Rightarrow>
          (if CHR '','' \<in> set s
           then Inr (PDict [(field,
                  PDict [(if negate then ''nin'' else op In, PList (map PStr (split_comma s)))])])
           else Inr (PDict [(field, PDict [(if negate then ''ne'' else '''', PStr s)])])))"
| "prepare_queryset_kwargs Boolean field v negate =
     (let bool_value = (if v = Some ''false'' then False else True);
          bool_value = (if negate then \<not> bool_value else bool_value)
      in Inr (PDict [(field, PBool bool_value)]))"
| "prepare_queryset_kwargs Startswith field v negate =
     Inr (PDict [(field, PDict [(''$regex'', PStr (''^'' @ format_val v))])])"
| "prepare_queryset_kwargs c field v negate = Inr (base_kwargs c field v negate)"

definition apply_op :: "operator \<Rightarrow> string \<Rightarrow> string option \<Rightarrow> bool \<Rightarrow> error + pyval" where
  "apply_op oper field v negate = prepare_queryset_kwargs (op_cls oper) field v negate"

section \<open>Resources (resources.py)\<close>

text \<open>
  The kinds of field definition that \<open>serialize_field_value\<close> and
  \<open>update_object\<close> distinguish with \<open>isinstance\<close>. A dict field may declare the
  field of its values.
\<close>

datatype field_kind =
    ReferenceField
  | GenericReferenceField
  | ListField
  | DictField "field_kind option"
  | OtherField

datatype view_method = Create | Update | BulkUpdate | Fetch | List | Delete

text \<open>
  A \<open>Resource\<close> instance: the class attributes (\<open>fields\<close> as \<open>res_fields\<close>,
  \<open>view_method\<close> as \<open>view\<close>, what \<open>get_optional_fields\<close> returns as
  \<open>optional_fields\<close>), the fields that the document class declares
  (\<open>DataProxy._fields\<close> as \<open>doc_fields\<close>), the callable attributes of the resource
  by name (\<open>callables\<close>, what \<open>hasattr(self, field) and callable(getattr(self,
  field))\<close> finds), the overridable \<open>value_for_field\<close>, and the per-request state
  (\<open>data\<close>, \<open>raw_data\<close>, \<open>_dirty_fields\<close>). Resource and document classes are
  named by strings.
\<close>

record resource =
  cls :: string
  doc_fields :: "(string \<times> field_kind) list"
  res_fields :: "string list"
  optional_fields :: "string list"
  rename_fields :: "(string \<times> string) list"
  filters :: "(string \<times> operator list) list"
  allowed_ordering :: "string list"
  paginate :: bool
  default_limit :: int
  max_limit :: int
  bulk_update_limit :: int
  child_document_resources :: "(string \<times> string) list"
  default_child_resource_document :: "string option"
  uri_prefix :: "string option"
  callables :: "(string \<times> (pyval \<Rightarrow> error + pyval)) list"
  value_for_field :: "pyval \<Rightarrow> string \<Rightarrow> error + pyval"
  view :: "view_method option"
  data :: "(string \<times> pyval) list option"
  raw_data :: "(string \<times> pyval) list"
  dirty_fields :: "string list option"

text \<open>
  \<open>__init__\<close> builds the reverse rename map by \<open>rev[v] = k\<close> for every entry, and
  asserts that no two fields were renamed to the same name.
\<close>

definition reverse_rename_fields :: "resource \<Rightarrow> (string \<times> string) list" where
  "reverse_rename_fields r = foldl (\<lambda>m (k, v). AList.update v k m) [] (rename_fields r)"

definition init_ok :: "resource \<Rightarrow> bool" where
  "init_ok r = (length (rename_fields r) = length (reverse_rename_fields r))"

definition reverse_rename :: "resource \<Rightarrow> string \<Rightarrow> string" where
  "reverse_rename r f = get_default (reverse_rename_fields r) f f"

definition rename :: "resource \<Rightarrow> string \<Rightarrow> string" where
  "rename r f = get_default (rename_fields r) f f"

subsection \<open>get_filters\<close>

definition field_filters :: "operator list \<Rightarrow> (string \<times> operator) list" where
  "field_filters ops =
     foldl (\<lambda>ff oper.
        AList.update (op (op_cls oper)) oper
          (if op (op_cls oper) = ''exact'' then AList.update [] oper ff else ff)) [] ops"

definition get_filters :: "resource \<Rightarrow> (string \<times> (string \<times> operator) list) list" where
  "get_filters r = map (\<lambda>(field, ops). (field, field_filters ops)) (filters r)"

subsection \<open>apply_filters\<close>

text \<open>
  The loop \<open>for i in range(len(parts) + 1, 0, -1)\<close>: the longest prefix of the parts
  whose join is a declared field with a non-empty operator dict. The result is
  \<open>allowed_operators\<close>, \<open>parts\<close> and \<open>field\<close> as the loop leaves them: without a
  match, \<open>allowed_operators\<close> is the lookup of the first part alone and \<open>parts\<close> is
  unchanged.
\<close>

fun find_field ::
  "(string \<times> (string \<times> operator) list) list \<Rightarrow> string list \<Rightarrow> nat \<Rightarrow>
   (string \<times> operator) list option \<times> string list \<times> string" where
  "find_field fs parts 0 = (None, parts, [])"
| "find_field fs parts (Suc n) =
     (let field = join ''__'' (take (Suc n) parts);
          allowed_operators = map_of fs field
      in if allowed_operators \<noteq> None \<and> allowed_operators \<noteq> Some []
         then (allowed_operators, drop (Suc n) parts, field)
         else if n = 0 then (allowed_operators, parts, field)
         else find_field fs parts n)"

text \<open>
  \<open>urlparse(value).path\<close> is the standard library's and a parameter \<open>url_path\<close>
  of the filter compiler: it gives the path of a value, or raises. \<open>urlparse_path\<close>
  is that function in outline, for the examples: a scheme (a letter, then letters,
  digits, \<open>+\<close>, \<open>-\<close> and \<open>.\<close>, up to the first colon) is split off; after \<open>//\<close> the
  authority runs to the next \<open>/\<close>, \<open>?\<close> or \<open>#\<close>, and an authority that has one of
  the brackets \<open>[\<close> and \<open>]\<close> without the other raises \<open>ValueError\<close> (\<open>Invalid IPv6
  URL\<close>); then the fragment after \<open>#\<close> and the query after \<open>?\<close> are cut off. What
  the library does beyond that (parameters after \<open>;\<close>, the checks of a bracketed
  host, the differences between its versions) is not in the outline.
\<close>

definition is_scheme_char :: "char \<Rightarrow> bool" where
  "is_scheme_char c =
     (let n = (of_char c :: nat)
      in (65 \<le> n \<and> n \<le> 90) \<or> (97 \<le> n \<and> n \<le> 122) \<or> (48 \<le> n \<and> n \<le> 57) \<or>
         c = CHR ''+'' \<or> c = CHR ''-'' \<or> c = CHR ''.'')"

definition is_alpha :: "char \<Rightarrow> bool" where
  "is_alpha c = (let n = (of_char c :: nat) in (65 \<le> n \<and> n \<le> 90) \<or> (97 \<le> n \<and> n \<le> 122))"

definition drop_scheme :: "string \<Rightarrow> string" where
  "drop_scheme url =
     (let scheme = takeWhile (\<lambda>c. c \<noteq> CHR '':'') url
      in if scheme \<noteq> [] \<and> length scheme < length url \<and> is_alpha (hd scheme) \<and>
            list_all is_scheme_char scheme
         then drop (Suc (length scheme)) url
         else url)"

definition urlparse_path :: "string \<Rightarrow> error + string" where
  "urlparse_path v =
     (let url = drop_scheme v;
          is_delim = (\<lambda>c. c = CHR ''/'' \<or> c = CHR ''?'' \<or> c = CHR ''#'');
          netloc = (if take 2 url = ''//'' then takeWhile (\<lambda>c. \<not> is_delim c) (drop 2 url) else []);
          rest = (if take 2 url = ''//'' then dropWhile (\<lambda>c. \<not> is_delim c) (drop 2 url) else url)
      in if (CHR ''['' \<in> set netloc) \<noteq> (CHR '']'' \<in> set netloc) then Inl ValueError
         else Inr (takeWhile (\<lambda>c. c \<noteq> CHR ''?'') (takeWhile (\<lambda>c. c \<noteq> CHR ''#'') rest)))"

text \<open>
  The value of a parameter as the operator receives it: on a resource with a
  \<open>uri_prefix\<close> the value is parsed as a URL, which may raise, and the value is
  the path with the prefix characters stripped on the left; then the empty string
  becomes \<open>None\<close> and a pair of quote characters becomes the empty string.
\<close>

definition filter_value ::
  "(string \<Rightarrow> error + string) \<Rightarrow> resource \<Rightarrow> string \<Rightarrow> error + string option" where
  "filter_value url_path r v =
     (let v1 = (case uri_prefix r of
                  None \<Rightarrow> Inr v
                | Some p \<Rightarrow>
                    if p = [] then Inr v
                    else (case url_path v of
                            Inl e \<Rightarrow> Inl e
                          | Inr path \<Rightarrow> Inr (lstrip p path)))
      in case v1 of
           Inl e \<Rightarrow> Inl e
         | Inr v2 \<Rightarrow>
             if v2 = [] then Inr None
             else if v2 = [CHR 0x22, CHR 0x22] \<or> v2 = [CHR 0x27, CHR 0x27] then Inr (Some [])
             else Inr (Some v2))"

text \<open>
  What is left of the key after the field: the operator suffix, if the last part
  names an allowed operator, and then the \<open>not\<close> modifier.
\<close>

definition split_suffix ::
  "(string \<times> operator) list \<Rightarrow> string list \<Rightarrow> string \<times> bool \<times> string list" where
  "split_suffix allowed_operators parts =
     (if parts = [] then ([], False, [])
      else
        let (op_name, parts1) =
              (if last parts \<in> fst ` set allowed_operators then (last parts, butlast parts)
               else ([], parts))
        in if parts1 \<noteq> [] \<and> last parts1 = ''not'' then (op_name, True, butlast parts1)
           else (op_name, False, parts1))"

text \<open>
  One iteration of the loop over \<open>params.items()\<close>: \<open>Inr None\<close> is \<open>continue\<close>,
  \<open>Inr (Some f)\<close> is the fragment appended to \<open>filters\<close>, \<open>Inl\<close> an exception.
  The value is prepared first, before the key is looked at.
\<close>

definition filter_term ::
  "(string \<Rightarrow> error + string) \<Rightarrow> resource \<Rightarrow> string \<Rightarrow> string \<Rightarrow> error + pyval option" where
  "filter_term url_path r key v =
     (case filter_value url_path r v of
        Inl e \<Rightarrow> Inl e
      | Inr val \<Rightarrow>
          (let parts = split_dunder key;
               (allowed_operators, parts1, field) =
                  find_field (get_filters r) parts (length parts + 1)
           in case allowed_operators of
                None \<Rightarrow> Inr None
              | Some allowed \<Rightarrow>
                  (let (op_name, negate, parts2) = split_suffix allowed parts1
                   in case map_of allowed op_name of
                        None \<Rightarrow> Inr None
                      | Some oper \<Rightarrow>
                          if negate \<and> \<not> allow_negation oper then Inr None
                          else
                            let field1 = (if parts2 \<noteq> []
                                          then field @ ''__'' @ join ''__'' parts2
                                          else field);
                                field2 = reverse_rename r field1
                            in (case apply_op oper field2 val negate of
                                  Inl e \<Rightarrow> Inl e
                                | Inr f \<Rightarrow> Inr (Some f)))))"

fun filter_terms ::
  "(string \<Rightarrow> error + string) \<Rightarrow> resource \<Rightarrow> (string \<times> string) list \<Rightarrow> pyval list \<Rightarrow>
   error + pyval list" where
  "filter_terms url_path r [] acc = Inr acc"
| "filter_terms url_path r ((key, v) # ps) acc =
     (case filter_term url_path r key v of
        Inl e \<Rightarrow> Inl e
      | Inr None \<Rightarrow> filter_terms url_path r ps acc
      | Inr (Some f) \<Rightarrow> filter_terms url_path r ps (acc @ [f]))"

definition apply_filters ::
  "(string \<Rightarrow> error + string) \<Rightarrow> resource \<Rightarrow> (string \<times> string) list \<Rightarrow> error + pyval" where
  "apply_filters url_path r params =
     (case filter_terms url_path r params [] of
        Inl e \<Rightarrow> Inl e
      | Inr fs \<Rightarrow> Inr (if length fs \<noteq> 0 then PDict [(''$and'', PList fs)] else PDict []))"

subsection \<open>apply_ordering\<close>

definition apply_ordering :: "resource \<Rightarrow> (string \<times> string) list \<Rightarrow> string list option" where
  "apply_ordering r params =
     (case map_of params ''_order_by'' of
        None \<Rightarrow> None
      | Some v \<Rightarrow>
          if allowed_ordering r \<noteq> [] \<and> v \<in> set (allowed_ordering r)
          then Some (map (reverse_rename r) (split_comma v))
          else None)"

subsection \<open>get_skip_and_limit\<close>

text \<open>
  \<open>int(s)\<close> of Python 3 on a string of ASCII text: surrounding whitespace is
  ignored, then come an optional sign and decimal digits, where single underscores
  may separate digits. Strings are ASCII text here, so the decimal digits and the
  whitespace that Unicode has beyond ASCII do not occur.
\<close>

definition is_space :: "char \<Rightarrow> bool" where
  "is_space c = (c \<in> set [CHR '' '', CHR 0x09, CHR 0x0A, CHR 0x0B, CHR 0x0C, CHR 0x0D,
                            CHR 0x1C, CHR 0x1D, CHR 0x1E, CHR 0x1F])"

definition strip :: "string \<Rightarrow> string" where
  "strip s = rev (dropWhile is_space (rev (dropWhile is_space s)))"

definition is_digit :: "char \<Rightarrow> bool" where
  "is_digit c = (48 \<le> (of_char c :: nat) \<and> (of_char c :: nat) \<le> 57)"

fun digits_ok :: "string \<Rightarrow> bool" where
  "digits_ok [] = False"
| "digits_ok [c] = is_digit c"
| "digits_ok (c # d # cs) =
     (is_digit c \<and> (if d = CHR ''_'' then digits_ok cs else digits_ok (d # cs)))"

definition digits_val :: "string \<Rightarrow> int" where
  "digits_val ds = foldl (\<lambda>n c. 10 * n + int (of_char c - 48)) 0 ds"

definition py_int :: "string \<Rightarrow> int option" where
  "py_int s =
     (let t = strip s;
          (sign, ds) = (case t of
                          [] \<Rightarrow> (1, [])
                        | c # cs \<Rightarrow> if c = CHR ''-'' then (- 1, cs)
                                    else if c = CHR ''+'' then (1, cs) else (1, t))
      in if digits_ok ds then Some (sign * digits_val (filter (\<lambda>c. c \<noteq> CHR ''_'') ds))
         else None)"

text \<open>
  Modelled from the spec: \<open>isint\<close> of \<open>flask_umongorest/utils.py\<close>, which is not
  among the sources. The spec has non-integer values of \<open>_skip\<close> and \<open>_limit\<close>
  rejected, so \<open>isint\<close> holds of exactly the strings that \<open>int\<close> converts.
\<close>

definition isint :: "string \<Rightarrow> bool" where
  "isint s = (py_int s \<noteq> None)"

text \<open>\<open>'%d' % n\<close>.\<close>

fun str_nat :: "nat \<Rightarrow> string" where
  "str_nat n = (if n < 10 then [char_of (48 + n)]
                else str_nat (n div 10) @ [char_of (48 + n mod 10)])"

declare str_nat.simps [simp del]

definition str_int :: "int \<Rightarrow> string" where
  "str_int i = (if i < 0 then ''-'' @ str_nat (nat (- i)) else str_nat (nat i))"

text \<open>The payloads of the four validation errors of \<open>get_skip_and_limit\<close>.\<close>

definition not_integer_error :: "string \<Rightarrow> string \<Rightarrow> error" where
  "not_integer_error name s =
     ValidationError (PDict [(''error'',
       PStr (name @ '' must be an integer (got '' @ [CHR 0x22] @ s @ [CHR 0x22] @ '' instead).''))])"

definition max_limit_error :: "int \<Rightarrow> error" where
  "max_limit_error m =
     ValidationError (PDict [(''error'',
       PStr (''The limit you set is larger than the maximum limit for this resource (max_limit = ''
             @ str_int m @ '').''))])"

definition negative_skip_error :: "string \<Rightarrow> error" where
  "negative_skip_error s =
     ValidationError (PDict [(''error'',
       PStr (''_skip must be a non-negative integer (got '' @ [CHR 0x22] @ s @ [CHR 0x22]
             @ '' instead).''))])"

text \<open>
  \<open>if not isint(params.get(name, 1)): raise ValidationError(... % params[name])\<close>:
  the default \<open>1\<close> is an integer, so only a value that is present can fail.
\<close>

definition not_integer :: "string \<Rightarrow> string option \<Rightarrow> error option" where
  "not_integer name p =
     (case p of
        None \<Rightarrow> None
      | Some s \<Rightarrow> if isint s then None else Some (not_integer_error name s))"

text \<open>\<open>int(params.get(k, default))\<close>: \<open>int\<close> raises \<open>ValueError\<close> on other strings.\<close>

definition int_param :: "string option \<Rightarrow> int \<Rightarrow> error + int" where
  "int_param p dflt =
     (case p of
        None \<Rightarrow> Inr dflt
      | Some s \<Rightarrow> (case py_int s of None \<Rightarrow> Inl ValueError | Some n \<Rightarrow> Inr n))"

text \<open>
  \<open>params.get(k) and cmp(int(params[k]))\<close>: false for an absent or empty value,
  without converting it.
\<close>

definition present_and :: "string option \<Rightarrow> (int \<Rightarrow> bool) \<Rightarrow> error + bool" where
  "present_and p cmp =
     (case p of
        None \<Rightarrow> Inr False
      | Some s \<Rightarrow> if s = [] then Inr False
                  else (case py_int s of None \<Rightarrow> Inl ValueError | Some n \<Rightarrow> Inr (cmp n)))"

definition get_skip_and_limit ::
  "resource \<Rightarrow> (string \<times> string) list \<Rightarrow> error + int \<times> int" where
  "get_skip_and_limit r params =
     (let limit_p = map_of params ''_limit''; skip_p = map_of params ''_skip'' in
      if paginate r then
        (case not_integer ''_limit'' limit_p of
           Some e \<Rightarrow> Inl e
         | None \<Rightarrow>
        (case not_integer ''_skip'' skip_p of
           Some e \<Rightarrow> Inl e
         | None \<Rightarrow>
        (case present_and limit_p (\<lambda>n. n > max_limit r) of
           Inl e \<Rightarrow> Inl e
         | Inr True \<Rightarrow> Inl (max_limit_error (max_limit r))
         | Inr False \<Rightarrow>
        (case present_and skip_p (\<lambda>n. n < 0) of
           Inl e \<Rightarrow> Inl e
         | Inr True \<Rightarrow>
             (case skip_p of
                Some s \<Rightarrow> Inl (negative_skip_error s)
              | None \<Rightarrow> Inl (KeyError ''_skip''))
         | Inr False \<Rightarrow>
        (case int_param limit_p (default_limit r) of
           Inl e \<Rightarrow> Inl e
         | Inr l \<Rightarrow>
        (case int_param skip_p 0 of
           Inl e \<Rightarrow> Inl e
         | Inr s \<Rightarrow> Inr (s, min l (max_limit r))))))))
      else Inr (0, max_limit r))"

subsection \<open>The document store\<close>

text \<open>
  The store is an external collaborator: pymongo behind umongo, in the versions of
  pymongo that have \<open>cursor.count()\<close>. What the store itself decides is a
  parameter: which documents a filter matches, and what iterating gives under a
  sort specification, a list of pairs of a key and a direction (the rows in some
  order, or an error). A cursor remembers the matching documents and the options
  set on it.

  \<^item> \<open>skip\<close> rejects a negative number with \<open>ValueError\<close>.
  \<^item> A \<open>limit\<close> of \<open>0\<close> is no limit, and a negative limit counts as its absolute
    value.
  \<^item> \<open>sort(keys)\<close> takes each element of a list of keys for a pair and unpacks it
    into key and direction. \<open>get_objects\<close> passes a list of field names: a name is
    a string, and unpacking a string into two raises \<open>ValueError\<close> unless it has
    exactly two characters, which then are the key and the direction.
  \<^item> \<open>count()\<close> counts the matching documents whatever the window.
  \<^item> Iterating sorts, skips and limits, in that order.
\<close>

record backend =
  matches :: "pyval \<Rightarrow> pyval \<Rightarrow> bool"
  order_by :: "(string \<times> string) list \<Rightarrow> pyval list \<Rightarrow> error + pyval list"

record cursor =
  c_rows :: "pyval list"
  c_skip :: int
  c_limit :: int
  c_sort :: "(string \<times> string) list option"

definition find_documents :: "backend \<Rightarrow> pyval list \<Rightarrow> pyval \<Rightarrow> cursor" where
  "find_documents be docs query_filter =
     \<lparr>c_rows = filter (matches be query_filter) docs, c_skip = 0, c_limit = 0, c_sort = None\<rparr>"

definition cursor_skip :: "int \<Rightarrow> cursor \<Rightarrow> error + cursor" where
  "cursor_skip n c = (if n < 0 then Inl ValueError else Inr (c\<lparr>c_skip := n\<rparr>))"

definition cursor_limit :: "int \<Rightarrow> cursor \<Rightarrow> cursor" where
  "cursor_limit n c = c\<lparr>c_limit := n\<rparr>"

text \<open>\<open>for (key, value) in index_list\<close> on a list of strings.\<close>

fun unpack_pairs :: "string list \<Rightarrow> error + (string \<times> string) list" where
  "unpack_pairs [] = Inr []"
| "unpack_pairs (k # ks) =
     (case k of
        [key, direction] \<Rightarrow>
          (case unpack_pairs ks of
             Inl e \<Rightarrow> Inl e
           | Inr spec \<Rightarrow> Inr (([key], [direction]) # spec))
      | _ \<Rightarrow> Inl ValueError)"

definition cursor_sort :: "string list \<Rightarrow> cursor \<Rightarrow> error + cursor" where
  "cursor_sort ks c =
     (if ks = [] then Inl ValueError
      else (case unpack_pairs ks of
              Inl e \<Rightarrow> Inl e
            | Inr spec \<Rightarrow> Inr (c\<lparr>c_sort := Some spec\<rparr>)))"

definition cursor_count :: "cursor \<Rightarrow> int" where
  "cursor_count c = int (length (c_rows c))"

text \<open>The skip and limit window of a list of rows.\<close>

definition window :: "cursor \<Rightarrow> pyval list \<Rightarrow> pyval list" where
  "window c rows =
     (let skipped = drop (nat (c_skip c)) rows
      in if c_limit c = 0 then skipped else take (nat \<bar>c_limit c\<bar>) skipped)"

definition cursor_list :: "backend \<Rightarrow> cursor \<Rightarrow> error + pyval list" where
  "cursor_list be c =
     (case c_sort c of
        None \<Rightarrow> Inr (window c (c_rows c))
      | Some spec \<Rightarrow>
          (case order_by be spec (c_rows c) of
             Inl e \<Rightarrow> Inl e
           | Inr rows \<Rightarrow> Inr (window c rows)))"

subsection \<open>get_objects\<close>

definition bulk_update_error :: "int \<Rightarrow> error" where
  "bulk_update_error n =
     ValidationError (PDict [(''errors'',
       PList [PStr (''It'' @ [CHR 0x27] @ ''s not allowed to update more than '' @ str_int n
                    @ '' objects at once'')])])"

text \<open>
  The limit and the cursor after the \<open>if self.view_method == methods.BulkUpdate\<close>
  statement.
\<close>

definition limited_cursor ::
  "resource \<Rightarrow> (string \<times> string) list \<Rightarrow> cursor \<Rightarrow> error + int \<times> cursor" where
  "limited_cursor r params c =
     (if view r = Some BulkUpdate
      then Inr (bulk_update_limit r, cursor_limit (bulk_update_limit r) c)
      else
        (case get_skip_and_limit r params of
           Inl e \<Rightarrow> Inl e
         | Inr (skip, limit) \<Rightarrow>
             (case cursor_skip skip c of
                Inl e \<Rightarrow> Inl e
              | Inr c1 \<Rightarrow> Inr (limit, cursor_limit (limit + 1) c1))))"

text \<open>\<open>if query_order: query_courser = query_courser.sort(query_order)\<close>.\<close>

definition ordered_cursor :: "string list option \<Rightarrow> cursor \<Rightarrow> error + cursor" where
  "ordered_cursor query_order c =
     (case query_order of
        None \<Rightarrow> Inr c
      | Some ks \<Rightarrow> if ks \<noteq> [] then cursor_sort ks c else Inr c)"

text \<open>
  \<open>get_objects\<close> only reads the collection; the collection is returned with the
  result. The result is \<open>(objs, has_more, count)\<close>.
\<close>

definition get_objects ::
  "(string \<Rightarrow> error + string) \<Rightarrow> backend \<Rightarrow> resource \<Rightarrow> (string \<times> string) list \<Rightarrow>
   pyval list \<Rightarrow> (error + pyval list \<times> bool option \<times> int) \<times> pyval list" where
  "get_objects url_path be r params docs =
     (case apply_filters url_path r params of
        Inl e \<Rightarrow> (Inl e, docs)
      | Inr query_filter \<Rightarrow>
          (let query_order = apply_ordering r params;
               query_courser = find_documents be docs query_filter
           in case limited_cursor r params query_courser of
                Inl e \<Rightarrow> (Inl e, docs)
              | Inr (limit, c1) \<Rightarrow>
                  (case ordered_cursor query_order c1 of
                     Inl e \<Rightarrow> (Inl e, docs)
                   | Inr c2 \<Rightarrow>
                       (let count = cursor_count c2 in
                        case cursor_list be c2 of
                          Inl e \<Rightarrow> (Inl e, docs)
                        | Inr objs \<Rightarrow>
                            if view r = Some BulkUpdate \<and>
                               int (length objs) \<ge> bulk_update_limit r
                            then (Inl (bulk_update_error (bulk_update_limit r)), docs)
                            else if view r \<noteq> Some BulkUpdate \<and> paginate r
                            then (let has_more = (int (length objs) > limit)
                                  in (Inr (if has_more then butlast objs else objs,
                                           Some has_more, count),
                                      docs))
                            else (Inr (objs, None, count), docs)))))"



subsection \<open>Sub-resource selection\<close>

text \<open>\<open>obj.__class__\<close>, by name.\<close>

fun class_of :: "pyval \<Rightarrow> string" where
  "class_of PNone = ''NoneType''"
| "class_of (PBool b) = ''bool''"
| "class_of (PInt n) = ''int''"
| "class_of (PStr s) = ''str''"
| "class_of (PList xs) = ''list''"
| "class_of (PDict kvs) = ''dict''"
| "class_of (PDBRef c i) = ''DBRef''"
| "class_of (PReference c pk) = ''PyMongoReference''"
| "class_of (PObj c attrs) = c"

text \<open>
  \<open>_subresource\<close>: the name of the resource class to delegate to, if any. The
  lookup of the default child document raises \<open>KeyError\<close> when it is not a key of
  \<open>child_document_resources\<close>. The delegate is an instance of another class,
  whose methods may be overridden, so what it does is a parameter of the methods
  that delegate.
\<close>

definition subresource :: "resource \<Rightarrow> pyval \<Rightarrow> error + string option" where
  "subresource r obj =
     (let found = map_of (child_document_resources r) (class_of obj);
          s_class =
            (case found of
               Some s \<Rightarrow> Inr (Some s)
             | None \<Rightarrow>
                 (case default_child_resource_document r of
                    None \<Rightarrow> Inr None
                  | Some d \<Rightarrow>
                      (case map_of (child_document_resources r) d of
                         None \<Rightarrow> Inl (KeyError d)
                       | Some s \<Rightarrow> Inr (Some s))))
      in case s_class of
           Inl e \<Rightarrow> Inl e
         | Inr None \<Rightarrow> Inr None
         | Inr (Some s) \<Rightarrow> if s \<noteq> cls r then Inr (Some s) else Inr None)"

subsection \<open>get_requested_fields\<close>

text \<open>
  \<open>requested_fields.remove(f)\<close> for each name of \<open>_not_fields\<close>: \<open>list.remove\<close>
  raises \<open>ValueError\<close> when the name is not in the list.
\<close>

fun remove_fields :: "string list \<Rightarrow> string list \<Rightarrow> error + string list" where
  "remove_fields [] requested = Inr requested"
| "remove_fields (f # fs) requested =
     (if f \<in> set requested then remove_fields fs (remove1 f requested) else Inl ValueError)"

text \<open>
  The keyword arguments are \<open>fields\<close> (\<open>None\<close> here when the keyword is not
  given) and \<open>params\<close> (\<open>None\<close> when it is not given or is \<open>None\<close>). Python does not
  fix the order in which a \<open>set\<close> is iterated; here it is the order of first
  occurrence. The membership test \<open>'_not_fields' in params\<close> is made on whatever
  \<open>params\<close> is, and raises \<open>TypeError\<close> on \<open>None\<close>.
\<close>

definition get_requested_fields ::
  "resource \<Rightarrow> string list option \<Rightarrow> (string \<times> string) list option \<Rightarrow> error + string list" where
  "get_requested_fields r fields_kw params =
     (let (fields, all_fields_set) =
            (case fields_kw of
               Some fs \<Rightarrow> (fs, set fs)
             | None \<Rightarrow> (res_fields r, set (res_fields r) \<union> set (optional_fields r)));
          all_fields_list =
            (case fields_kw of
               Some fs \<Rightarrow> remdups fs
             | None \<Rightarrow> remdups (res_fields r @ optional_fields r));
          only_fields =
            (case params of
               None \<Rightarrow> None
             | Some ps \<Rightarrow>
                 (if ps \<noteq> [] then map_option (\<lambda>v. remdups (split_comma v)) (map_of ps ''_fields'')
                  else None));
          include_all = (case only_fields of None \<Rightarrow> False | Some only \<Rightarrow> ''_all'' \<in> set only);
          requested_fields =
            (case only_fields of
               None \<Rightarrow> fields
             | Some only \<Rightarrow>
                 if include_all then all_fields_list
                 else filter (\<lambda>f. f \<in> all_fields_set) (map (reverse_rename r) only))
      in case params of
           None \<Rightarrow> Inl TypeError
         | Some ps \<Rightarrow>
             (case map_of ps ''_not_fields'' of
                None \<Rightarrow> Inr requested_fields
              | Some v \<Rightarrow> remove_fields (split_comma v) requested_fields))"

subsection \<open>Serialization\<close>

text \<open>
  \<open>getattr(v, name)\<close>: \<open>None\<close> here is \<open>AttributeError\<close>. An instance has the
  attributes it carries, a \<open>DBRef\<close> has \<open>collection\<close> and \<open>id\<close>, a
  \<open>PyMongoReference\<close> has \<open>pk\<close>. The attributes that Python's built-in types have
  themselves (\<open>real\<close> of an \<open>int\<close>, \<open>count\<close> of a \<open>str\<close>) are not modelled.
\<close>

fun getattr :: "pyval \<Rightarrow> string \<Rightarrow> pyval option" where
  "getattr (PObj c attrs) name = map_of attrs name"
| "getattr (PDBRef c i) name =
     (if name = ''id'' then Some i else if name = ''collection'' then Some (PStr c) else None)"
| "getattr (PReference c pk) name = (if name = ''pk'' then Some pk else None)"
| "getattr v name = None"

text \<open>
  \<open>serialize_document_field\<close>. mongoengine's \<open>DocumentProxy\<close> is absent. The last
  case calls \<open>to_dbref()\<close>, which a document instance answers with the reference to
  its primary key (its collection named like its class here); other values have no
  such method.
\<close>

fun serialize_document_field :: "pyval \<Rightarrow> error + pyval" where
  "serialize_document_field (PDBRef c i) = Inr (PDBRef c i)"
| "serialize_document_field (PReference c pk) =
     (case c of
        None \<Rightarrow> Inr pk
      | Some n \<Rightarrow> if n \<noteq> [] then Inr (PDBRef n pk) else Inr pk)"
| "serialize_document_field (PObj c attrs) =
     (case map_of attrs ''pk'' of
        None \<Rightarrow> Inl AttributeError
      | Some pk \<Rightarrow> Inr (PDBRef c pk))"
| "serialize_document_field v = (if truthy v then Inl AttributeError else Inr v)"

text \<open>
  An element of a list field: \<open>serialize_list_field\<close> calls
  \<open>get_field_value(val, field_name, val)\<close>, with the element as the field instance.
  A truthy element is its own field instance and value: a \<open>PyMongoReference\<close> is
  serialized as a document field, anything else is returned. A falsy element is no
  field instance, so the value is looked up in it: an empty dict raises \<open>KeyError\<close>,
  the others have no such attribute, which raises \<open>UnknownFieldError\<close>.
\<close>

definition list_element :: "string \<Rightarrow> pyval \<Rightarrow> error + pyval" where
  "list_element field_name val =
     (if truthy val
      then (case val of PReference c pk \<Rightarrow> serialize_document_field val | _ \<Rightarrow> Inr val)
      else (case val of PDict kvs \<Rightarrow> Inl (KeyError field_name) | _ \<Rightarrow> Inl UnknownFieldError))"

fun list_elements :: "string \<Rightarrow> pyval list \<Rightarrow> error + pyval list" where
  "list_elements field_name [] = Inr []"
| "list_elements field_name (val # vals) =
     (case list_element field_name val of
        Inl e \<Rightarrow> Inl e
      | Inr res \<Rightarrow>
          (case list_elements field_name vals of
             Inl e \<Rightarrow> Inl e
           | Inr ret \<Rightarrow> Inr (res # ret)))"

text \<open>\<open>for val in field_value\<close>: the values a \<open>for\<close> loop takes from a value.\<close>

fun iterate :: "pyval \<Rightarrow> error + pyval list" where
  "iterate (PList xs) = Inr xs"
| "iterate (PDict kvs) = Inr (map (\<lambda>(k, v). PStr k) kvs)"
| "iterate (PStr s) = Inr (map (\<lambda>c. PStr [c]) s)"
| "iterate v = Inl TypeError"

text \<open>
  \<open>serialize_field_value\<close> for the field definition of a document field, with
  \<open>serialize_list_field\<close> and \<open>serialize_dict_field\<close>. A dict field with a declared
  value field serializes each value with that field; \<open>field_value.items()\<close> raises
  \<open>AttributeError\<close> on a value that is no dict.
\<close>

fun serialize_field_value :: "field_kind \<Rightarrow> string \<Rightarrow> pyval \<Rightarrow> error + pyval"
  and serialize_dict_items ::
    "field_kind \<Rightarrow> string \<Rightarrow> (string \<times> pyval) list \<Rightarrow> error + (string \<times> pyval) list"
where
  "serialize_field_value ReferenceField field_name v = serialize_document_field v"
| "serialize_field_value GenericReferenceField field_name v = serialize_document_field v"
| "serialize_field_value ListField field_name v =
     (case iterate v of
        Inl e \<Rightarrow> Inl e
      | Inr vals \<Rightarrow>
          (case list_elements field_name vals of Inl e \<Rightarrow> Inl e | Inr ret \<Rightarrow> Inr (PList ret)))"
| "serialize_field_value (DictField None) field_name v = Inr v"
| "serialize_field_value (DictField (Some k)) field_name v =
     (case v of
        PDict kvs \<Rightarrow>
          (case serialize_dict_items k field_name kvs of
             Inl e \<Rightarrow> Inl e
           | Inr kvs' \<Rightarrow> Inr (PDict kvs'))
      | _ \<Rightarrow> Inl AttributeError)"
| "serialize_field_value OtherField field_name v = Inr v"
| "serialize_dict_items k field_name [] = Inr []"
| "serialize_dict_items k field_name ((key, elem) # kvs) =
     (case serialize_field_value k field_name elem of
        Inl e \<Rightarrow> Inl e
      | Inr res \<Rightarrow>
          (case serialize_dict_items k field_name kvs of
             Inl e \<Rightarrow> Inl e
           | Inr ret \<Rightarrow> Inr ((key, res) # ret)))"

text \<open>
  \<open>get_field_value(obj, field_name)\<close> as \<open>serialize\<close> calls it, without a field
  instance. A dict is indexed, which raises \<open>KeyError\<close> on a missing key; on any
  other object a missing attribute is turned into \<open>UnknownFieldError\<close>. The field
  instance is the document's field definition; callable attributes of the document
  class are not modelled, so a name that the document does not declare has no field
  instance and its value is returned as it is.
\<close>

definition get_field_value :: "resource \<Rightarrow> pyval \<Rightarrow> string \<Rightarrow> error + pyval" where
  "get_field_value r obj field_name =
     (case obj of
        PDict kvs \<Rightarrow>
          (case map_of kvs field_name of
             None \<Rightarrow> Inl (KeyError field_name)
           | Some v \<Rightarrow> Inr v)
      | _ \<Rightarrow>
          (case getattr obj field_name of
             None \<Rightarrow> Inl UnknownFieldError
           | Some field_value \<Rightarrow>
               (case map_of (doc_fields r) field_name of
                  None \<Rightarrow> Inr field_value
                | Some field_instance \<Rightarrow>
                    serialize_field_value field_instance field_name field_value)))"

text \<open>
  One iteration of the loop of \<open>serialize\<close> over the requested fields, on the
  \<open>data\<close> dict built so far.
\<close>

definition serialize_field ::
  "resource \<Rightarrow> pyval \<Rightarrow> string \<Rightarrow> (string \<times> pyval) list \<Rightarrow> error + (string \<times> pyval) list" where
  "serialize_field r obj field data_so_far =
     (let renamed_field = rename r field in
      case map_of (callables r) field of
        Some f \<Rightarrow>
          (case f obj of
             Inl e \<Rightarrow> Inl e
           | Inr v \<Rightarrow> Inr (AList.update renamed_field v data_so_far))
      | None \<Rightarrow>
          (case get_field_value r obj field of
             Inr v \<Rightarrow> Inr (AList.update renamed_field v data_so_far)
           | Inl UnknownFieldError \<Rightarrow>
               (case value_for_field r obj field of
                  Inr v \<Rightarrow> Inr (AList.update renamed_field v data_so_far)
                | Inl UnknownFieldError \<Rightarrow> Inr data_so_far
                | Inl e \<Rightarrow> Inl e)
           | Inl e \<Rightarrow> Inl e))"

fun serialize_fields ::
  "resource \<Rightarrow> pyval \<Rightarrow> string list \<Rightarrow> (string \<times> pyval) list \<Rightarrow>
   error + (string \<times> pyval) list" where
  "serialize_fields r obj [] data_so_far = Inr data_so_far"
| "serialize_fields r obj (field # fs) data_so_far =
     (case serialize_field r obj field data_so_far of
        Inl e \<Rightarrow> Inl e
      | Inr d \<Rightarrow> serialize_fields r obj fs d)"

text \<open>
  \<open>serialize(obj, **kwargs)\<close>; \<open>sub\<close> is the \<open>serialize\<close> of the sub-resource
  classes.
\<close>

definition serialize ::
  "(string \<Rightarrow> pyval \<Rightarrow> string list option \<Rightarrow> (string \<times> string) list option \<Rightarrow>
      error + (string \<times> pyval) list) \<Rightarrow>
   resource \<Rightarrow> pyval \<Rightarrow> string list option \<Rightarrow> (string \<times> string) list option \<Rightarrow>
   error + (string \<times> pyval) list" where
  "serialize sub r obj fields_kw params =
     (if \<not> truthy obj then Inr []
      else
        (case subresource r obj of
           Inl e \<Rightarrow> Inl e
         | Inr (Some s) \<Rightarrow> sub s obj fields_kw params
         | Inr None \<Rightarrow>
             (case get_requested_fields r fields_kw params of
                Inl e \<Rightarrow> Inl e
              | Inr requested_fields \<Rightarrow> serialize_fields r obj requested_fields [])))"

subsection \<open>Updating an object\<close>


text \<open>
  Modelled from the spec: \<open>equal\<close> of \<open>flask_umongorest/utils.py\<close>, which is not
  among the sources. The spec has the new value of a field compared against the
  current one, and only fields whose value differs applied; \<open>equal\<close> is equality of
  the two values.
\<close>

definition equal :: "pyval \<Rightarrow> pyval \<Rightarrow> bool" where
  "equal a b = (a = b)"

text \<open>\<open>v and getattr(v, name, v)\<close>.\<close>

definition and_getattr :: "pyval \<Rightarrow> string \<Rightarrow> pyval" where
  "and_getattr v name =
     (if truthy v then (case getattr v name of Some i \<Rightarrow> i | None \<Rightarrow> v) else v)"

text \<open>
  The comparison in the loop of \<open>update_object\<close>: whether the field is to be
  updated. For an object with \<open>_db_data\<close> and a reference field the ids are
  compared: that of the stored value (\<open>obj._db_data.get(field)\<close>) and that of the
  new one. \<open>obj._fields\<close> is the field table of the resource's document.
  Otherwise the attribute is read, which raises \<open>AttributeError\<close> when the object
  has none of that name, and compared with \<open>equal\<close>.
\<close>

definition needs_update :: "resource \<Rightarrow> pyval \<Rightarrow> string \<Rightarrow> pyval \<Rightarrow> error + bool" where
  "needs_update r obj field v =
     (let unequal = (case getattr obj field of
                       None \<Rightarrow> Inl AttributeError
                     | Some current \<Rightarrow> Inr (\<not> equal current v))
      in case getattr obj ''_db_data'' of
           None \<Rightarrow> unequal
         | Some db_data \<Rightarrow>
             if map_of (doc_fields r) field = Some ReferenceField
             then (case db_data of
                     PDict kvs \<Rightarrow>
                       (let db_val = get_default kvs field PNone;
                            id_from_obj = and_getattr db_val ''id'';
                            id_from_data = and_getattr v ''pk''
                        in Inr (id_from_obj \<noteq> id_from_data))
                   | _ \<Rightarrow> Inl AttributeError)
             else unequal)"

text \<open>\<open>setattr(obj, field, value)\<close>.\<close>

fun setattr :: "pyval \<Rightarrow> string \<Rightarrow> pyval \<Rightarrow> error + pyval" where
  "setattr (PObj c attrs) field v = Inr (PObj c (AList.update field v attrs))"
| "setattr obj field v = Inl AttributeError"

text \<open>
  The loop over \<open>update_dict.items()\<close>, on the object and the list
  \<open>self._dirty_fields\<close>.
\<close>

fun update_fields ::
  "resource \<Rightarrow> (string \<times> pyval) list \<Rightarrow> pyval \<Rightarrow> string list \<Rightarrow> error + pyval \<times> string list" where
  "update_fields r [] obj dirty = Inr (obj, dirty)"
| "update_fields r ((field, v) # update_dict) obj dirty =
     (case needs_update r obj field v of
        Inl e \<Rightarrow> Inl e
      | Inr False \<Rightarrow> update_fields r update_dict obj dirty
      | Inr True \<Rightarrow>
          (case setattr obj field v of
             Inl e \<Rightarrow> Inl e
           | Inr obj' \<Rightarrow> update_fields r update_dict obj' (dirty @ [field])))"



text \<open>Assigning the entries of a dict to attributes, in order.\<close>

definition set_fields ::
  "(string \<times> pyval) list \<Rightarrow> (string \<times> pyval) list \<Rightarrow> (string \<times> pyval) list" where
  "set_fields attrs kvs = foldl (\<lambda>a (field, v). AList.update field v a) attrs kvs"

section \<open>The example application (example/app.py, example/documents.py)\<close>

definition Exact_cls :: operator where
  "Exact_cls = \<lparr>op_cls = Exact, allow_negation = False\<rparr>"

definition Ne_cls :: operator where
  "Ne_cls = \<lparr>op_cls = Ne, allow_negation = False\<rparr>"

definition In_cls :: operator where
  "In_cls = \<lparr>op_cls = In, allow_negation = False\<rparr>"

text \<open>
  \<open>UserResource\<close> over the \<open>User\<close> document, with the defaults of \<open>Resource\<close> for
  everything the example does not set.
\<close>

definition UserResource :: resource where
  "UserResource = \<lparr>
     cls = ''UserResource'',
     doc_fields = [(''id'', OtherField), (''nick'', OtherField), (''firstname'', OtherField),
       (''lastname'', OtherField), (''birthday'', OtherField), (''listfield'', ListField),
       (''password'', OtherField)],
     res_fields = [''id'', ''nick'', ''firstname'', ''lastname'', ''birthday'', ''listfield'',
       ''password''],
     optional_fields = [],
     rename_fields = [],
     filters = [(''firstname'', [Exact_cls, Ne_cls]), (''lastname'', [Exact_cls, Ne_cls]),
       (''nick'', [Exact_cls, Ne_cls])],
     allowed_ordering = [''firstname''],
     paginate = True,
     default_limit = 100,
     max_limit = 100,
     bulk_update_limit = 1000,
     child_document_resources = [],
     default_child_resource_document = None,
     uri_prefix = None,
     callables = [],
     value_for_field = (\<lambda>obj field. Inl UnknownFieldError),
     view = None,
     data = None,
     raw_data = [],
     dirty_fields = None
   \<rparr>"

section \<open>Inputs of the worked examples\<close>

text \<open>
  A store that matches every object with every filter and gives the rows back in
  the order of the collection under every sort specification, and a collection of
  objects that have an \<open>id\<close> and nothing else.
\<close>

definition match_all :: backend where
  "match_all = \<lparr>matches = (\<lambda>q d. True), order_by = (\<lambda>spec rows. Inr rows)\<rparr>"

definition users :: "int list \<Rightarrow> pyval list" where
  "users ns = map (\<lambda>n. PObj ''User'' [(''id'', PInt n)]) ns"

text \<open>
  A plain object with four attributes, and the same data as a dict. The object is
  not a umongo document: a document answers \<open>None\<close> for a field that is not set,
  while this object has no attribute \<open>lastname\<close>, \<open>birthday\<close> or \<open>password\<close>.
  \<open>owned\<close> is an object as mongoengine keeps it, with the stored values in
  \<open>_db_data\<close>: its \<open>owner\<close> is the reference to the user \<open>5\<close>, and
  \<open>OwnedResource\<close> is a resource for its class, whose only document field is that
  reference field and whose request carries the same reference as the new value
  of \<open>owner\<close>. The other parameters stand for what is outside: the resources
  here have no sub-resources, so the delegates are never called, and the store
  gives a saved object back as it is.
\<close>

definition ann :: pyval where
  "ann = PObj ''User'' [(''id'', PInt 1), (''nick'', PStr ''ann''), (''firstname'', PStr ''Ann''),
     (''listfield'', PList [PStr ''a'', PStr ''b''])]"

definition ann_dict :: pyval where
  "ann_dict = PDict [(''id'', PInt 1), (''nick'', PStr ''ann''), (''firstname'', PStr ''Ann''),
     (''listfield'', PList [PStr ''a'', PStr ''b''])]"



definition no_sub_serialize ::
  "string \<Rightarrow> pyval \<Rightarrow> string list option \<Rightarrow> (string \<times> string) list option \<Rightarrow>
   error + (string \<times> pyval) list" where
  "no_sub_serialize s obj fields_kw params = Inl (KeyError s)"



section \<open>Properties of the filter compiler\<close>

lemma map_of_get_filters_None:
  "f \<notin> fst ` set (filters r) \<Longrightarrow> map_of (get_filters r) f = None"
  by (force simp: get_filters_def map_of_eq_None_iff)

lemma find_field_no_match:
  "(\<And>i. map_of fs (join ''__'' (take (Suc i) parts)) = None) \<Longrightarrow>
   fst (find_field fs parts n) = None"
  by (induction n) (auto simp: Let_def)

lemma filter_terms_append:
  "filter_terms u r (ps @ qs) acc =
     (case filter_terms u r ps acc of Inl e \<Rightarrow> Inl e | Inr acc' \<Rightarrow> filter_terms u r qs acc')"
  by (induction ps arbitrary: acc) (auto split: sum.splits option.splits)

lemma filter_terms_skip:
  "filter_term u r key v = Inr None \<Longrightarrow>
   filter_terms u r (ps @ (key, v) # qs) acc = filter_terms u r (ps @ qs) acc"
  by (simp add: filter_terms_append split: sum.splits)

lemma filter_terms_all_skipped:
  "(\<forall>(k, v) \<in> set ps. filter_term u r k v = Inr None) \<Longrightarrow> filter_terms u r ps acc = Inr acc"
  by (induction ps arbitrary: acc) auto

lemma filter_value_no_prefix:
  "uri_prefix r = None \<or> uri_prefix r = Some [] \<Longrightarrow> \<exists>val. filter_value u r v = Inr val"
  by (auto simp: filter_value_def)

lemma filter_term_no_field:
  assumes "filter_value u r v = Inr val"
    and "\<forall>i. join ''__'' (take (Suc i) (split_dunder key)) \<notin> fst ` set (filters r)"
  shows "filter_term u r key v = Inr None"
proof -
  have "fst (find_field (get_filters r) (split_dunder key) (length (split_dunder key) + 1)) = None"
    using assms(2) by (intro find_field_no_match map_of_get_filters_None) simp
  then show ?thesis
    using assms(1) by (auto simp: filter_term_def Let_def split: prod.splits)
qed

lemma filter_term_no_operator:
  assumes "filter_value u r v = Inr val"
    and "find_field (get_filters r) (split_dunder key) (length (split_dunder key) + 1)
             = (Some allowed, parts, field)"
    and "split_suffix allowed parts = (op_name, negate, rest)"
    and "map_of allowed op_name = None \<or>
         (\<exists>oper. map_of allowed op_name = Some oper \<and> negate \<and> \<not> allow_negation oper)"
  shows "filter_term u r key v = Inr None"
  using assms by (auto simp: filter_term_def Let_def)

text \<open>
  When the value of a parameter can be prepared (always on a resource without
  \<open>uri_prefix\<close>; with one, when the URL parser accepts the value), the parameter
  is left out of the filter, and raises nothing, when no prefix of its key parts is
  a declared field, when the field has no operator for the suffix, or when it asks
  for the negation of an operator that does not allow it: the filter is the one
  compiled from the other parameters. When every parameter is left out, the filter
  is the empty dict.
\<close>

lemma apply_filters_skips_term:
  assumes "filter_value url_path r v = Inr val"
    and "(\<forall>i. join ''__'' (take (Suc i) (split_dunder key)) \<notin> fst ` set (filters r)) \<or>
     (\<exists>allowed parts field op_name negate rest.
        find_field (get_filters r) (split_dunder key) (length (split_dunder key) + 1)
          = (Some allowed, parts, field) \<and>
        split_suffix allowed parts = (op_name, negate, rest) \<and>
        (map_of allowed op_name = None \<or>
         (\<exists>oper. map_of allowed op_name = Some oper \<and> negate \<and> \<not> allow_negation oper)))"
  shows "filter_term url_path r key v = Inr None"
    and "apply_filters url_path r (ps @ (key, v) # qs) = apply_filters url_path r (ps @ qs)"
proof -
  show skip: "filter_term url_path r key v = Inr None"
    using assms filter_term_no_field filter_term_no_operator by blast
  show "apply_filters url_path r (ps @ (key, v) # qs) = apply_filters url_path r (ps @ qs)"
    by (simp add: apply_filters_def filter_terms_skip [OF skip])
qed

lemma apply_filters_all_skipped:
  "(\<forall>(k, w) \<in> set params. filter_term url_path r k w = Inr None) \<Longrightarrow>
   apply_filters url_path r params = Inr (PDict [])"
  by (auto simp: apply_filters_def filter_terms_all_skipped)

text \<open>
  C3. The fragments of \<open>In\<close> at \<open>firstname\<close>, \<open>Bob\<close>: without a comma the value is
  nested under the key \<open>''\<close> (negated: \<open>ne\<close>), where \<open>Exact\<close> builds the equality
  fragment \<open>{field: value}\<close> (negated: \<open>{field: {'$ne': value}}\<close>); with a comma the
  split list is nested under \<open>in\<close> (negated: \<open>nin\<close>), without the \<open>$\<close> that
  every operator name of the base class carries.
\<close>

theorem In_apply_fragments:
  "apply_op In_cls ''firstname'' (Some ''Bob'') False
     = Inr (PDict [(''firstname'', PDict [([], PStr ''Bob'')])]) \<and>
   apply_op Exact_cls ''firstname'' (Some ''Bob'') False
     = Inr (PDict [(''firstname'', PStr ''Bob'')]) \<and>
   apply_op In_cls ''firstname'' (Some ''Bob'') True
     = Inr (PDict [(''firstname'', PDict [(''ne'', PStr ''Bob'')])]) \<and>
   apply_op Exact_cls ''firstname'' (Some ''Bob'') True
     = Inr (PDict [(''firstname'', PDict [(''$ne'', PStr ''Bob'')])]) \<and>
   apply_op In_cls ''firstname'' (Some ''Bob,Al'') False
     = Inr (PDict [(''firstname'', PDict [(''in'', PList [PStr ''Bob'', PStr ''Al''])])]) \<and>
   apply_op In_cls ''firstname'' (Some ''Bob,Al'') True
     = Inr (PDict [(''firstname'', PDict [(''nin'', PList [PStr ''Bob'', PStr ''Al''])])]) \<and>
   apply_op Ne_cls ''firstname'' (Some ''Bob'') False
     = Inr (PDict [(''firstname'', PDict [(''$ne'', PStr ''Bob'')])])"
  by (simp add: apply_op_def In_cls_def Exact_cls_def Ne_cls_def split_comma_def base_kwargs_def)

text \<open>
  C5. On a resource with a \<open>uri_prefix\<close> every value is parsed as a URL before
  its key is looked at, so a parameter whose key matches no declared field is not
  left out when its value is \<open>http://[\<close>: the parser raises \<open>ValueError\<close> and so
  does \<open>apply_filters\<close>. The same parameter is left out on the resource without
  \<open>uri_prefix\<close>, and with a value that parses.
\<close>

theorem apply_filters_unparsable_value:
  "map_of (get_filters (UserResource\<lparr>uri_prefix := Some ''/user/''\<rparr>)) ''age__gt'' = None \<and>
   map_of (get_filters (UserResource\<lparr>uri_prefix := Some ''/user/''\<rparr>)) ''age'' = None \<and>
   urlparse_path ''http://['' = Inl ValueError \<and>
   apply_filters urlparse_path (UserResource\<lparr>uri_prefix := Some ''/user/''\<rparr>)
       [(''age__gt'', ''http://['')]
     = Inl ValueError \<and>
   apply_filters urlparse_path UserResource [(''age__gt'', ''http://['')] = Inr (PDict []) \<and>
   apply_filters urlparse_path (UserResource\<lparr>uri_prefix := Some ''/user/''\<rparr>)
       [(''age__gt'', ''/user/3'')]
     = Inr (PDict [])"
  by code_simp

section \<open>Properties of ordering\<close>

text \<open>
  What \<open>apply_ordering\<close> returns: the split and reverse-renamed value of
  \<open>_order_by\<close> when that value, as sent, is an entry of \<open>allowed_ordering\<close>, and
  \<open>None\<close> in every other case.
\<close>

lemma apply_ordering_Some_iff:
  "apply_ordering r params = Some ks \<longleftrightarrow>
     (\<exists>v. map_of params ''_order_by'' = Some v \<and> v \<in> set (allowed_ordering r) \<and>
          ks = map (reverse_rename r) (split_comma v))"
  by (auto simp: apply_ordering_def split: option.splits)

text \<open>
  C7. The membership test is made on the value of \<open>_order_by\<close> before it is split:
  with \<open>firstname\<close> and \<open>lastname\<close> both allowed, the request
  \<open>firstname,lastname\<close> gets no ordering, while \<open>firstname\<close> alone gets one. The
  split after the test has an effect only when \<open>allowed_ordering\<close> lists the
  joined string itself.
\<close>

theorem apply_ordering_unsplit_membership:
  "''firstname'' \<in> set (allowed_ordering (UserResource\<lparr>allowed_ordering := [''firstname'', ''lastname'']\<rparr>)) \<and>
   ''lastname'' \<in> set (allowed_ordering (UserResource\<lparr>allowed_ordering := [''firstname'', ''lastname'']\<rparr>)) \<and>
   split_comma ''firstname,lastname'' = [''firstname'', ''lastname''] \<and>
   apply_ordering (UserResource\<lparr>allowed_ordering := [''firstname'', ''lastname'']\<rparr>)
       [(''_order_by'', ''firstname,lastname'')] = None \<and>
   apply_ordering (UserResource\<lparr>allowed_ordering := [''firstname'', ''lastname'']\<rparr>)
       [(''_order_by'', ''firstname'')] = Some [''firstname''] \<and>
   apply_ordering (UserResource\<lparr>allowed_ordering := [''firstname,lastname'']\<rparr>)
       [(''_order_by'', ''firstname,lastname'')] = Some [''firstname'', ''lastname'']"
  by (simp add: apply_ordering_def split_comma_def reverse_rename_def reverse_rename_fields_def
      get_default_def UserResource_def)

section \<open>Properties of pagination and get_objects\<close>

lemma py_int_empty: "py_int [] = None"
  by (simp add: py_int_def strip_def)

lemma present_and_False:
  "present_and p cmp = Inr False \<Longrightarrow> int_param p d = Inr n \<Longrightarrow> p \<noteq> None \<Longrightarrow> \<not> cmp n"
  by (auto simp: present_and_def int_param_def py_int_empty split: option.splits if_splits)

lemma get_skip_and_limit_skip_nonneg:
  assumes "get_skip_and_limit r params = Inr (skip, limit)"
  shows "0 \<le> skip"
proof (cases "paginate r")
  case False
  with assms show ?thesis by (simp add: get_skip_and_limit_def)
next
  case True
  show ?thesis
  proof (cases "map_of params ''_skip''")
    case None
    with assms True show ?thesis
      by (auto simp: get_skip_and_limit_def Let_def int_param_def
          split: option.splits sum.splits bool.splits)
  next
    case (Some s)
    from assms True have pa: "present_and (map_of params ''_skip'') (\<lambda>n. n < 0) = Inr False"
      and ip: "int_param (map_of params ''_skip'') 0 = Inr skip"
      by (auto simp: get_skip_and_limit_def Let_def split: option.splits sum.splits bool.splits)
    from present_and_False [OF pa ip] Some show ?thesis by simp
  qed
qed

lemma length_window:
  "c_limit c \<noteq> 0 \<Longrightarrow> length (window c rows) \<le> nat \<bar>c_limit c\<bar>"
  by (simp add: window_def)

lemma ordered_cursor_fields:
  assumes "ordered_cursor qo c = Inr c'"
  shows "c_rows c' = c_rows c" "c_skip c' = c_skip c" "c_limit c' = c_limit c"
  using assms
  by (auto simp: ordered_cursor_def cursor_sort_def split: option.splits if_splits sum.splits)

lemma length_cursor_list:
  assumes "cursor_list be c = Inr objs" "c_limit c \<noteq> 0"
  shows "length objs \<le> nat \<bar>c_limit c\<bar>"
  using assms length_window [of c]
  by (auto simp: cursor_list_def split: option.splits sum.splits)

text \<open>
  When \<open>_order_by\<close> is honoured, \<open>get_objects\<close> hands the field names to \<open>sort\<close>
  as they are; a name that is not two characters long cannot be unpacked into a
  key and a direction, and the call raises \<open>ValueError\<close>.
\<close>

lemma unpack_pairs_raises:
  "\<exists>k \<in> set ks. length k \<noteq> 2 \<Longrightarrow> unpack_pairs ks = Inl ValueError"
proof (induction ks)
  case Nil
  then show ?case by simp
next
  case (Cons k ks)
  show ?case
  proof (cases "length k = 2")
    case True
    then obtain a b where "k = [a, b]"
      by (cases k; cases "tl k"; cases "tl (tl k)") auto
    with Cons True show ?thesis by auto
  next
    case False
    then show ?thesis
      by (cases k; cases "tl k"; cases "tl (tl k)") auto
  qed
qed

lemma get_objects_order_by_raises:
  "get_objects urlparse_path match_all UserResource [(''_order_by'', ''firstname'')] (users [1, 2])
     = (Inl ValueError, users [1, 2])"
  by code_simp

text \<open>
  The checks that \<open>get_skip_and_limit\<close> does make: a value of \<open>_limit\<close> or
  \<open>_skip\<close> that is no integer raises the validation error that names the
  parameter, and a \<open>_limit\<close> above \<open>max_limit\<close> the one that gives \<open>max_limit\<close>.
\<close>

lemma get_skip_and_limit_limit_not_integer:
  assumes "paginate r" "map_of params ''_limit'' = Some s" "\<not> isint s"
  shows "get_skip_and_limit r params = Inl (not_integer_error ''_limit'' s)"
  using assms by (simp add: get_skip_and_limit_def not_integer_def)

lemma get_skip_and_limit_skip_not_integer:
  assumes "paginate r" "not_integer ''_limit'' (map_of params ''_limit'') = None"
    "map_of params ''_skip'' = Some s" "\<not> isint s"
  shows "get_skip_and_limit r params = Inl (not_integer_error ''_skip'' s)"
  using assms by (simp add: get_skip_and_limit_def not_integer_def)

lemma get_skip_and_limit_above_max_limit:
  assumes "paginate r" "map_of params ''_limit'' = Some s" "py_int s = Some n" "max_limit r < n"
    "not_integer ''_skip'' (map_of params ''_skip'') = None"
  shows "get_skip_and_limit r params = Inl (max_limit_error (max_limit r))"
proof -
  have "s \<noteq> []" using assms(3) by (auto simp: py_int_empty)
  then have "present_and (Some s) (\<lambda>n. max_limit r < n) = Inr True"
    using assms(3,4) by (simp add: present_and_def)
  then show ?thesis
    using assms by (simp add: get_skip_and_limit_def not_integer_def isint_def)
qed

lemma get_skip_and_limit_limit_10000:
  "get_skip_and_limit UserResource [(''_limit'', ''10000'')]
     = Inl (ValidationError (PDict [(''error'', PStr
         ''The limit you set is larger than the maximum limit for this resource (max_limit = 100).'')]))"
  by code_simp

text \<open>
  C1, as the code has it. A paginated, non-bulk fetch whose skip and limit are
  \<open>skip\<close> and \<open>limit \<ge> 0\<close> returns at most \<open>limit\<close> objects whenever it returns.
  When no ordering is applied, it returns the rows \<open>skip \<dots> skip + limit - 1\<close> of
  the matching documents, \<open>has_more\<close> says whether more than \<open>skip + limit\<close>
  documents match, and the count is that of all matching documents.
\<close>

theorem get_objects_page:
  assumes pag: "paginate r" and nb: "view r \<noteq> Some BulkUpdate"
    and flt: "apply_filters url_path r params = Inr query_filter"
    and sl: "get_skip_and_limit r params = Inr (skip, limit)"
    and nonneg: "0 \<le> limit"
  shows "(\<forall>objs has_more count.
            fst (get_objects url_path be r params docs) = Inr (objs, has_more, count) \<longrightarrow>
            int (length objs) \<le> limit) \<and>
     (apply_ordering r params = None \<longrightarrow>
        get_objects url_path be r params docs
          = (Inr (take (nat limit) (drop (nat skip) (filter (matches be query_filter) docs)),
                  Some (skip + limit < int (length (filter (matches be query_filter) docs))),
                  int (length (filter (matches be query_filter) docs))),
             docs))"
proof -
  define rows where "rows = filter (matches be query_filter) docs"
  define c0 where "c0 = find_documents be docs query_filter"
  define c1 where "c1 = c0\<lparr>c_skip := skip, c_limit := limit + 1\<rparr>"
  have sk: "0 \<le> skip" using sl by (rule get_skip_and_limit_skip_nonneg)
  have lc: "limited_cursor r params c0 = Inr (limit, c1)"
    using nb sl sk by (simp add: limited_cursor_def cursor_skip_def cursor_limit_def c1_def)
  have bound: "int (length objs) \<le> limit"
    if res: "fst (get_objects url_path be r params docs) = Inr (objs, has_more, count)"
    for objs has_more count
  proof -
    from res flt lc pag nb obtain c2 fetched where
      oc: "ordered_cursor (apply_ordering r params) c1 = Inr c2"
      and cl: "cursor_list be c2 = Inr fetched"
      and ob: "objs = (if int (length fetched) > limit then butlast fetched else fetched)"
      by (auto simp: get_objects_def Let_def c0_def [symmetric] split: sum.splits)
    have "c_limit c2 = limit + 1"
      using ordered_cursor_fields(3) [OF oc] by (simp add: c1_def)
    with length_cursor_list [OF cl] nonneg have "length fetched \<le> nat (limit + 1)"
      by simp
    with ob nonneg show ?thesis by (auto split: if_splits)
  qed
  have plain: "get_objects url_path be r params docs
      = (Inr (take (nat limit) (drop (nat skip) rows),
              Some (skip + limit < int (length rows)), int (length rows)), docs)"
    if no: "apply_ordering r params = None"
  proof -
    define fetched where "fetched = take (nat (limit + 1)) (drop (nat skip) rows)"
    have oc: "ordered_cursor (apply_ordering r params) c1 = Inr c1"
      using no by (simp add: ordered_cursor_def)
    have lst: "cursor_list be c1 = Inr fetched"
      using sk nonneg
      by (simp add: cursor_list_def window_def c1_def c0_def find_documents_def fetched_def
          rows_def)
    have cnt: "cursor_count c1 = int (length rows)"
      by (simp add: cursor_count_def c1_def c0_def find_documents_def rows_def)
    define has_more where "has_more = (int (length fetched) > limit)"
    define objs where "objs = (if has_more then butlast fetched else fetched)"
    have go: "get_objects url_path be r params docs
        = (Inr (objs, Some has_more, int (length rows)), docs)"
      using pag nb flt lc oc lst cnt
      by (simp add: get_objects_def Let_def c0_def [symmetric] objs_def has_more_def)
    have hm: "has_more \<longleftrightarrow> int (length rows) > skip + limit"
      using sk nonneg by (auto simp: has_more_def fetched_def)
    have flen: "length fetched \<le> nat (limit + 1)"
      by (simp add: fetched_def)
    have objs_take: "objs = take (nat limit) (drop (nat skip) rows)"
    proof (cases has_more)
      case True
      then have "nat limit < length fetched" using nonneg by (simp add: has_more_def)
      with flen have "length fetched = Suc (nat limit)" using nonneg by linarith
      then have "butlast fetched = take (nat limit) fetched"
        by (metis butlast_conv_take diff_Suc_1)
      also have "\<dots> = take (nat limit) (drop (nat skip) rows)"
        using nonneg by (simp add: fetched_def min_def)
      finally show ?thesis using True by (simp add: objs_def)
    next
      case False
      then have "length (drop (nat skip) rows) \<le> nat limit"
        using nonneg by (auto simp: has_more_def fetched_def)
      then show ?thesis using False by (simp add: objs_def fetched_def)
    qed
    from go hm objs_take show ?thesis by simp
  qed
  from bound plain show ?thesis
    unfolding rows_def by blast
qed

theorem get_objects_page_witness:
  "paginate UserResource \<and> view UserResource \<noteq> Some BulkUpdate \<and>
   apply_filters urlparse_path UserResource [(''_skip'', ''1''), (''_limit'', ''2'')]
     = Inr (PDict []) \<and>
   get_skip_and_limit UserResource [(''_skip'', ''1''), (''_limit'', ''2'')] = Inr (1, 2) \<and>
   apply_ordering UserResource [(''_skip'', ''1''), (''_limit'', ''2'')] = None \<and>
   get_objects urlparse_path match_all UserResource [(''_skip'', ''1''), (''_limit'', ''2'')]
       (users [1, 2, 3, 4, 5])
     = (Inr (users [2, 3], Some True, 5), users [1, 2, 3, 4, 5])"
proof -
  let ?ps = "[(''_skip'', ''1''), (''_limit'', ''2'')]"
  have p: "paginate UserResource" and nb: "view UserResource \<noteq> Some BulkUpdate"
    by (simp_all add: UserResource_def)
  have f: "apply_filters urlparse_path UserResource ?ps = Inr (PDict [])"
    by code_simp
  have sl: "get_skip_and_limit UserResource ?ps = Inr (1, 2)"
    by code_simp
  have no: "apply_ordering UserResource ?ps = None"
    by (simp add: apply_ordering_def)
  have nn: "(0::int) \<le> 2" by simp
  have n: "filter (matches match_all (PDict [])) (users [1, 2, 3, 4, 5]) = users [1, 2, 3, 4, 5]"
    by (simp add: match_all_def)
  have w: "take (nat 2) (drop (nat 1) (users [1, 2, 3, 4, 5])) = users [2, 3]"
    "length (users [1, 2, 3, 4, 5]) = 5"
    by (simp_all add: users_def numeral_2_eq_2)
  from get_objects_page [OF p nb f sl nn, of match_all "users [1, 2, 3, 4, 5]",
      THEN conjunct2, THEN mp, OF no]
  have "get_objects urlparse_path match_all UserResource ?ps (users [1, 2, 3, 4, 5])
     = (Inr (users [2, 3], Some True, 5), users [1, 2, 3, 4, 5])"
    unfolding n w by simp
  with p nb f sl no show ?thesis by simp
qed

text \<open>
  C1 as stated fails when rows are skipped: with \<open>_skip=5\<close> and \<open>_limit=5\<close>
  over eight matching documents, more than five documents match and \<open>has_more\<close>
  is false.
\<close>

theorem get_objects_has_more_counterexample:
  "get_skip_and_limit UserResource [(''_skip'', ''5''), (''_limit'', ''5'')] = Inr (5, 5) \<and>
   length (filter (matches match_all (PDict [])) (users [1, 2, 3, 4, 5, 6, 7, 8])) = 8 \<and>
   get_objects urlparse_path match_all UserResource [(''_skip'', ''5''), (''_limit'', ''5'')]
       (users [1, 2, 3, 4, 5, 6, 7, 8])
     = (Inr (users [6, 7, 8], Some False, 8), users [1, 2, 3, 4, 5, 6, 7, 8])"
  by code_simp




text \<open>
  C6. A negative \<open>_limit\<close> is accepted and returned as the limit, where a
  negative \<open>_skip\<close> raises the validation error.
\<close>

theorem get_skip_and_limit_negative_limit:
  "get_skip_and_limit UserResource [(''_limit'', ''-5'')] = Inr (0, - 5) \<and>
   get_skip_and_limit UserResource [(''_skip'', ''-5'')] = Inl (negative_skip_error ''-5'')"
  by code_simp

text \<open>
  C8. Without pagination the fetch is still limited to \<open>max_limit + 1\<close>
  documents: of five matching documents a resource with \<open>max_limit = 2\<close> returns
  three.
\<close>

theorem get_objects_unpaginated_capped:
  "get_objects urlparse_path match_all (UserResource\<lparr>paginate := False, max_limit := 2\<rparr>) []
       (users [1, 2, 3, 4, 5])
     = (Inr (users [1, 2, 3], None, 5), users [1, 2, 3, 4, 5])"
  by code_simp

section \<open>Properties of update_object\<close>

lemma needs_update_other_field:
  assumes "g \<noteq> f" "g \<noteq> ''_db_data''"
  shows "needs_update r (PObj c (AList.update g w attrs)) f v = needs_update r (PObj c attrs) f v"
  using assms by (simp add: needs_update_def update_conv')

text \<open>
  The loop of \<open>update_object\<close> tests every entry of the update dict against the
  object as it was given, sets the entries for which the test holds, and lists
  their names as dirty.
\<close>

lemma update_fields_result:
  assumes "distinct (map fst ud)"
    and "''_db_data'' \<notin> fst ` set ud"
    and "\<forall>(f, v) \<in> set ud. \<exists>b. needs_update r (PObj c attrs) f v = Inr b"
  shows "update_fields r ud (PObj c attrs) dirty
     = Inr (PObj c (set_fields attrs
                      (filter (\<lambda>(f, v). needs_update r (PObj c attrs) f v = Inr True) ud)),
            dirty @ map fst (filter (\<lambda>(f, v). needs_update r (PObj c attrs) f v = Inr True) ud))"
  using assms
proof (induction ud arbitrary: attrs dirty)
  case Nil
  then show ?case by (simp add: set_fields_def)
next
  case (Cons p ud)
  obtain f v where p: "p = (f, v)" by (cases p)
  from Cons.prems p have fnot: "f \<notin> fst ` set ud" and fdb: "f \<noteq> ''_db_data''"
    and dist: "distinct (map fst ud)" and nodb: "''_db_data'' \<notin> fst ` set ud"
    and ok: "\<forall>(g, w) \<in> set ud. \<exists>b. needs_update r (PObj c attrs) g w = Inr b"
    by auto
  from Cons.prems(3) p obtain b where nu: "needs_update r (PObj c attrs) f v = Inr b"
    by auto
  show ?case
  proof (cases b)
    case False
    with nu p Cons.IH [OF dist nodb ok] show ?thesis by simp
  next
    case True
    let ?attrs = "AList.update f v attrs"
    have same: "needs_update r (PObj c ?attrs) g w = needs_update r (PObj c attrs) g w"
      if "(g, w) \<in> set ud" for g w
    proof -
      from that fnot have "f \<noteq> g" by force
      with fdb show ?thesis by (simp add: needs_update_other_field)
    qed
    have ok': "\<forall>(g, w) \<in> set ud. \<exists>b. needs_update r (PObj c ?attrs) g w = Inr b"
      using ok same by auto
    have flt: "filter (\<lambda>(g, w). needs_update r (PObj c ?attrs) g w = Inr True) ud
        = filter (\<lambda>(g, w). needs_update r (PObj c attrs) g w = Inr True) ud"
      by (rule filter_cong [OF refl]) (auto simp: same)
    from True nu p Cons.IH [OF dist nodb ok', of "dirty @ [f]"] flt show ?thesis
      by (simp add: set_fields_def)
  qed
qed

text \<open>
  Where the ids are not compared (the object has no \<open>_db_data\<close>, or the field is
  no reference field), a new value that is the current one is not an update.
\<close>

lemma needs_update_same_value:
  assumes "getattr obj field = Some v"
    and "getattr obj ''_db_data'' = None \<or> map_of (doc_fields r) field \<noteq> Some ReferenceField"
  shows "needs_update r obj field v = Inr False"
  using assms by (auto simp: needs_update_def equal_def Let_def split: option.splits)


section \<open>Properties of serialization\<close>

lemma serialize_field_absent:
  assumes "\<forall>kvs. obj \<noteq> PDict kvs" "getattr obj field = None"
    "map_of (callables r) field = None"
    "value_for_field r obj field = Inl UnknownFieldError"
  shows "serialize_field r obj field d = Inr d"
  using assms
  by (auto simp: serialize_field_def get_field_value_def Let_def split: pyval.splits)

lemma serialize_fields_append:
  "serialize_fields r obj (fs @ gs) d =
     (case serialize_fields r obj fs d of Inl e \<Rightarrow> Inl e | Inr d' \<Rightarrow> serialize_fields r obj gs d')"
  by (induction fs arbitrary: d) (auto split: sum.splits)

text \<open>
  For an object that is no dict, a requested field that the object has no
  attribute for, that is no callable of the resource and that \<open>value_for_field\<close>
  does not know is left out: the other fields are serialized as without it.
\<close>

lemma serialize_fields_omit_absent:
  assumes "\<forall>kvs. obj \<noteq> PDict kvs" "getattr obj field = None"
    "map_of (callables r) field = None"
    "value_for_field r obj field = Inl UnknownFieldError"
  shows "serialize_fields r obj (fs @ field # gs) d = serialize_fields r obj (fs @ gs) d"
  using serialize_field_absent [OF assms]
  by (simp add: serialize_fields_append split: sum.splits)

text \<open>
  C9. Serializing a dict that lacks a requested key raises \<open>KeyError\<close>:
  \<open>value_for_field\<close> is not tried and nothing is returned, although it would raise
  \<open>UnknownFieldError\<close> for the field. The same data as a plain object, which has no
  attribute of that name, is serialized without the field.
\<close>

theorem serialize_dict_missing_key:
  "serialize no_sub_serialize UserResource ann_dict (Some [''nick'', ''lastname'', ''firstname''])
       (Some [])
     = Inl (KeyError ''lastname'') \<and>
   value_for_field UserResource ann_dict ''lastname'' = Inl UnknownFieldError \<and>
   serialize no_sub_serialize UserResource ann (Some [''nick'', ''lastname'', ''firstname''])
       (Some [])
     = Inr [(''nick'', PStr ''ann''), (''firstname'', PStr ''Ann'')]"
  by code_simp

text \<open>
  C10. Without \<open>params\<close> (or with \<open>params=None\<close>) \<open>get_requested_fields\<close> raises
  \<open>TypeError\<close>, whatever \<open>fields\<close> is, and so does \<open>serialize\<close> for an object that
  is truthy and not delegated.
\<close>

theorem get_requested_fields_params_None:
  "get_requested_fields r fields_kw None = Inl TypeError \<and>
   (truthy obj \<and> subresource r obj = Inr None \<longrightarrow>
      serialize sub r obj fields_kw None = Inl TypeError)"
  by (simp add: get_requested_fields_def serialize_def Let_def split: prod.splits)

theorem get_requested_fields_params_None_witness:
  "truthy ann \<and> subresource UserResource ann = Inr None \<and>
   get_requested_fields UserResource None None = Inl TypeError \<and>
   serialize no_sub_serialize UserResource ann None None = Inl TypeError \<and>
   get_requested_fields UserResource None (Some []) = Inr (res_fields UserResource)"
proof -
  have t: "truthy ann" by (simp add: ann_def)
  have s: "subresource UserResource ann = Inr None"
    by (simp add: subresource_def UserResource_def ann_def)
  have d: "get_requested_fields UserResource None (Some []) = Inr (res_fields UserResource)"
    by (simp add: get_requested_fields_def)
  from get_requested_fields_params_None [of UserResource None ann no_sub_serialize] t s d
  show ?thesis by simp
qed

end
